theory Spec2Isabelle
  imports Main
begin

section \<open>West extension commands for 9P development (scripts/west\_9p.py)\<close>

text \<open>
  The two commands of \<^verbatim>\<open>west_9p.py\<close>, \<^verbatim>\<open>9p-serve\<close> (class NinePServe) and
  \<^verbatim>\<open>9p-run\<close> (class NinePRun), are sequential scripts over the operating system.
  Each \<^verbatim>\<open>do_run\<close> is embedded as a function from the parsed arguments and a
  description of the environment (\<open>world\<close>) to the way the call ends (\<open>result\<close>)
  together with the list of operating-system calls it made, in order (\<open>event list\<close>).
\<close>

subsection \<open>Python values\<close>

text \<open>Python's \<^verbatim>\<open>str(n)\<close> for an integer: decimal digits, a minus sign when negative.\<close>

fun str_nat :: "nat \<Rightarrow> string" where
  "str_nat n =
     (if n < 10 then [''0123456789'' ! n]
      else str_nat (n div 10) @ [''0123456789'' ! (n mod 10)])"

declare str_nat.simps [simp del]

definition str_int :: "int \<Rightarrow> string" where
  "str_int i = (if i < 0 then ''-'' @ str_nat (nat (- i)) else str_nat (nat i))"

text \<open>\<^verbatim>\<open>' '.join(cmd)\<close>.\<close>

fun join_space :: "string list \<Rightarrow> string" where
  "join_space [] = []"
| "join_space [x] = x"
| "join_space (x # y # ys) = x @ '' '' @ join_space (y # ys)"

text \<open>
  Truth value of the optional port in \<^verbatim>\<open>if args.port:\<close> and \<^verbatim>\<open>if not args.port:\<close>:
  \<^verbatim>\<open>None\<close> and the integer 0 are false. (For the optional strings of
  \<^verbatim>\<open>if args.serve_dir:\<close> and \<^verbatim>\<open>if args.build_dir:\<close>, \<^verbatim>\<open>None\<close> and the empty string are
  false; the functions below test this in place.)
\<close>

definition truthy_int :: "int option \<Rightarrow> bool" where
  "truthy_int p = (case p of None \<Rightarrow> False | Some n \<Rightarrow> n \<noteq> 0)"

text \<open>The line feed of the messages.\<close>

definition newline :: string where
  "newline = [CHR 0x0A]"

subsection \<open>Arguments, results and operating-system calls\<close>

text \<open>The namespace built by \<^verbatim>\<open>NinePServe.do_add_parser\<close> (lines 25-52).\<close>

record serve_args =
  directory :: string
  socket :: string
  port :: "int option"
  daemon :: bool

text \<open>The namespace built by \<^verbatim>\<open>NinePRun.do_add_parser\<close> (lines 109-139).\<close>

record run_args =
  socket :: string
  board :: string
  build_dir :: "string option"
  serve_dir :: "string option"
  memory :: int

datatype exn = KeyboardInterrupt | OSError | FileNotFoundError

text \<open>
  How a \<^verbatim>\<open>do_run\<close> call ends: it returns (Python's \<^verbatim>\<open>None\<close>: neither \<^verbatim>\<open>do_run\<close>
  has a \<^verbatim>\<open>return\<close> statement), it calls \<^verbatim>\<open>self.die(msg)\<close>, which reports the
  message and leaves the program, or an exception propagates out of it.
\<close>

datatype result = Returned | Died string | Raised exn

datatype signal = SIGTERM | SIGKILL | SIGINT

text \<open>
  The calls the commands make, one constructor per library function.
  \<open>Popen cmd shell setsid\<close> is \<^verbatim>\<open>subprocess.Popen(cmd, shell=.., preexec_fn=os.setsid)\<close>,
  the last flag telling whether the \<^verbatim>\<open>os.setsid\<close> hook is given;
  \<open>Time_sleep\<close> carries the delay in milliseconds;
  \<open>Popen_terminate pid\<close> is \<^verbatim>\<open>Popen.terminate()\<close>, which signals the one child \<open>pid\<close>;
  \<open>Os_killpg g s\<close> is \<^verbatim>\<open>os.killpg(g, s)\<close>, which signals every process of group \<open>g\<close>.
\<close>

datatype event =
    Is_dir string
  | Os_path_exists string
  | Path_exists string
  | Os_unlink string
  | Print string
  | Os_system string
  | Popen string bool bool
  | Time_sleep nat
  | Popen_terminate nat
  | Subprocess_run "string list"
  | Os_getpgid nat
  | Os_killpg nat signal

text \<open>
  The blocking calls that raise \<^verbatim>\<open>KeyboardInterrupt\<close> when the operator's interrupt
  arrives: \<^verbatim>\<open>time.sleep\<close> after a spawn and \<^verbatim>\<open>subprocess.run\<close> of the emulator. The
  third blocking call, \<^verbatim>\<open>os.system\<close> in the foreground mode of \<^verbatim>\<open>9p-serve\<close>, is not
  among them: the C library's \<^verbatim>\<open>system\<close> has the interrupt signal ignored in the calling
  process while it waits, so the call returns when the pipeline has ended and nothing is
  raised.
\<close>

datatype suspension = Settle_delay | Consumer_wait

text \<open>
  What the commands cannot decide themselves:
  \<^item> \<open>resolve p\<close> is \<^verbatim>\<open>str(Path(p).resolve())\<close> and \<open>joinpath a b\<close> is \<^verbatim>\<open>str(Path(a) / b)\<close>;
  \<^item> \<open>is_dir\<close>, \<open>which_ok\<close> (\<^verbatim>\<open>which\<close> exits with 0) and \<open>unlink_fails\<close>
    (\<^verbatim>\<open>os.unlink\<close> raises) answer for the file system and the search path;
  \<^item> \<open>exists_at_entry\<close> tells which paths exist when the command starts,
    \<open>exists_after_settle\<close> which exist once a pipeline started by \<^verbatim>\<open>9p-run\<close> has had
    its settle delay (the pipeline may or may not have bound its socket by then);
  \<^item> \<open>popen_pid\<close> is the process id of the spawned shell, \<open>None\<close> when the spawn fails;
    \<open>pgid\<close> is \<^verbatim>\<open>os.getpgid\<close>;
  \<^item> \<open>sigint s\<close> tells whether the operator's interrupt arrives while the command blocks
    at \<open>s\<close>, so that the blocking call raises \<^verbatim>\<open>KeyboardInterrupt\<close>;
  \<^item> \<open>qemu_exit\<close> is the exit code of the emulator, \<open>None\<close> when it cannot be executed.
\<close>

record world =
  resolve :: "string \<Rightarrow> string"
  joinpath :: "string \<Rightarrow> string \<Rightarrow> string"
  is_dir :: "string \<Rightarrow> bool"
  which_ok :: "string \<Rightarrow> bool"
  unlink_fails :: "string \<Rightarrow> bool"
  exists_at_entry :: "string \<Rightarrow> bool"
  exists_after_settle :: "string \<Rightarrow> bool"
  popen_pid :: "nat option"
  pgid :: "nat \<Rightarrow> nat"
  sigint :: "suspension \<Rightarrow> bool"
  qemu_exit :: "int option"

subsection \<open>NinePServe\<close>

text \<open>\<^verbatim>\<open>_check_command\<close> (lines 95-99): the answer and the call made.\<close>

definition check_command :: "world \<Rightarrow> string \<Rightarrow> bool \<times> event list" where
  "check_command w cmd = (which_ok w cmd, [Subprocess_run [''which'', cmd]])"

text \<open>
  Lines 66-75 of \<^verbatim>\<open>NinePServe.do_run\<close>: the address handed to the server tool.
  \<open>unix_addr\<close> is the \<^verbatim>\<open>else\<close> branch (lines 71-75), which removes an existing socket;
  it is taken when no port is given and when the port is 0.
\<close>

definition unix_addr :: "serve_args \<Rightarrow> world \<Rightarrow> (result + string) \<times> event list" where
  "unix_addr a w =
     (if exists_at_entry w (serve_args.socket a) then
        (if unlink_fails w (serve_args.socket a) then
           (Inl (Raised OSError),
            [Os_path_exists (serve_args.socket a), Os_unlink (serve_args.socket a)])
         else
           (Inr (''unix!'' @ serve_args.socket a),
            [Os_path_exists (serve_args.socket a), Os_unlink (serve_args.socket a),
             Print (''Starting 9P server on Unix socket '' @ serve_args.socket a @ ''...'')]))
      else
        (Inr (''unix!'' @ serve_args.socket a),
         [Os_path_exists (serve_args.socket a),
          Print (''Starting 9P server on Unix socket '' @ serve_args.socket a @ ''...'')]))"

definition serve_addr :: "serve_args \<Rightarrow> world \<Rightarrow> (result + string) \<times> event list" where
  "serve_addr a w =
     (case port a of
        None \<Rightarrow> unix_addr a w
      | Some p \<Rightarrow>
          if p \<noteq> 0 then
            (Inr (''tcp!*!'' @ str_int p),
             [Print (''Starting 9P server on TCP port '' @ str_int p @ ''...'')])
          else unix_addr a w)"

text \<open>
  Lines 77-93: the pipeline command, run with \<^verbatim>\<open>os.system\<close> in either mode. In the
  foreground the call blocks until the pipeline has ended; no \<^verbatim>\<open>KeyboardInterrupt\<close> is
  raised inside it (see \<open>suspension\<close>), so the \<^verbatim>\<open>except\<close> clause of lines 92-93 is not
  entered and \<^verbatim>\<open>do_run\<close> returns after \<^verbatim>\<open>os.system\<close>.
\<close>

definition serve_start :: "serve_args \<Rightarrow> world \<Rightarrow> string \<Rightarrow> string \<Rightarrow> result \<times> event list" where
  "serve_start a w dir addr =
     (let cmd = ''9pex '' @ dir @ '' | 9pserve '' @ addr in
      if daemon a then
        (let cmd' = cmd @ '' &'';
             t = [Print (''Command: '' @ cmd'), Os_system cmd', Time_sleep 500] in
         if sigint w Settle_delay then (Raised KeyboardInterrupt, t)
         else
           (Returned,
            t @ [Print ''Server started in background''] @
            (if truthy_int (port a) then [] else [Print (''Socket: '' @ serve_args.socket a)])))
      else
        (Returned,
         [Print (''Command: '' @ cmd), Print ''Press Ctrl+C to stop server'', Os_system cmd]))"

text \<open>\<^verbatim>\<open>NinePServe.do_run\<close> (lines 54-93).\<close>

definition serve_do_run :: "serve_args \<Rightarrow> world \<Rightarrow> result \<times> event list" where
  "serve_do_run a w =
     (let dir = resolve w (directory a) in
      if \<not> is_dir w dir then (Died (''Directory not found: '' @ dir), [Is_dir dir])
      else if \<not> fst (check_command w ''9pex'') then
        (Died ''9pex not found. Install plan9port (brew install plan9port)'',
         [Is_dir dir] @ snd (check_command w ''9pex''))
      else if \<not> fst (check_command w ''9pserve'') then
        (Died ''9pserve not found. Install plan9port (brew install plan9port)'',
         [Is_dir dir] @ snd (check_command w ''9pex'') @ snd (check_command w ''9pserve''))
      else
        (let t = [Is_dir dir] @ snd (check_command w ''9pex'') @ snd (check_command w ''9pserve'') in
         case serve_addr a w of
           (Inl r, ta) \<Rightarrow> (r, t @ ta)
         | (Inr addr, ta) \<Rightarrow>
             (case serve_start a w dir addr of (r, ts) \<Rightarrow> (r, t @ ta @ ts))))"

subsection \<open>NinePRun\<close>

text \<open>
  Lines 142-158 of \<^verbatim>\<open>NinePRun.do_run\<close>: the optional start of the server pipeline.
  The value is \<open>Inl\<close> when the call ends here, else \<open>Inr server_proc\<close> with
  \<open>server_proc\<close> the process id of the pipeline's shell, \<open>None\<close> when none was started.
\<close>

definition auto_start :: "run_args \<Rightarrow> world \<Rightarrow> (result + nat option) \<times> event list" where
  "auto_start a w =
     (case serve_dir a of
        None \<Rightarrow> (Inr None, [])
      | Some d \<Rightarrow>
          if d = [] then (Inr None, [])
          else
            (let sd = resolve w d in
             if \<not> is_dir w sd then
               (Inl (Died (''Serve directory not found: '' @ sd)), [Is_dir sd])
             else if exists_at_entry w (socket a) \<and> unlink_fails w (socket a) then
               (Inl (Raised OSError), [Is_dir sd, Os_path_exists (socket a), Os_unlink (socket a)])
             else
               (let t = [Is_dir sd, Os_path_exists (socket a)] @
                        (if exists_at_entry w (socket a) then [Os_unlink (socket a)] else []) @
                        [Print (''Starting 9P server for '' @ sd @ ''...''),
                         Popen (''9pex '' @ sd @ '' | 9pserve unix!'' @ socket a) True True] in
                case popen_pid w of
                  None \<Rightarrow> (Inl (Raised OSError), t)
                | Some pid \<Rightarrow>
                    if sigint w Settle_delay then
                      (Inl (Raised KeyboardInterrupt), t @ [Time_sleep 500])
                    else (Inr (Some pid), t @ [Time_sleep 500]))))"

text \<open>Lines 181-190: the command line of the emulator.\<close>

definition qemu_cmd :: "run_args \<Rightarrow> string \<Rightarrow> string list" where
  "qemu_cmd a kernel_elf =
     [''qemu-system-i386'',
      ''-m'', str_int (memory a),
      ''-cpu'', ''qemu32'',
      ''-device'', ''isa-debug-exit,iobase=0xf4,iosize=0x04'',
      ''-no-reboot'',
      ''-nographic'',
      ''-serial'', ''unix:'' @ socket a,
      ''-kernel'', kernel_elf]"

text \<open>
  What \<^verbatim>\<open>os.path.exists\<close> and \<^verbatim>\<open>Path.exists\<close> answer at lines 161 and 174: the
  file system after the settle delay when a pipeline was started, else the one at entry.
\<close>

definition present :: "world \<Rightarrow> nat option \<Rightarrow> string \<Rightarrow> bool" where
  "present w server_proc path =
     (case server_proc of
        None \<Rightarrow> exists_at_entry w path
      | Some pid \<Rightarrow> exists_after_settle w path)"

text \<open>\<^verbatim>\<open>if server_proc: server_proc.terminate()\<close> (lines 162-163 and 175-176).\<close>

definition terminate :: "nat option \<Rightarrow> event list" where
  "terminate server_proc =
     (case server_proc of None \<Rightarrow> [] | Some pid \<Rightarrow> [Popen_terminate pid])"

text \<open>The \<^verbatim>\<open>finally\<close> clause (lines 200-203).\<close>

definition stop_server :: "world \<Rightarrow> nat option \<Rightarrow> event list" where
  "stop_server w server_proc =
     (case server_proc of
        None \<Rightarrow> []
      | Some pid \<Rightarrow>
          [Print ''Stopping 9P server...'', Os_getpgid pid, Os_killpg (pgid w pid) SIGTERM])"

text \<open>
  Lines 160-203: the two checks, each with the call of \<open>terminate\<close> before
  \<^verbatim>\<open>self.die\<close>, then the emulator under \<^verbatim>\<open>try\<close>/\<^verbatim>\<open>except KeyboardInterrupt\<close>/\<^verbatim>\<open>finally\<close>.
  The value of \<^verbatim>\<open>subprocess.run(cmd)\<close>, which holds the exit code, is not bound to any name.
\<close>

definition launch :: "run_args \<Rightarrow> world \<Rightarrow> nat option \<Rightarrow> result \<times> event list" where
  "launch a w server_proc =
     (if \<not> present w server_proc (socket a) then
        (Died (''Socket not found: '' @ socket a @ newline @
               ''Start server first with: west 9p-serve''),
         [Os_path_exists (socket a)] @ terminate server_proc)
      else
        (let build = (case build_dir a of
                        None \<Rightarrow> ''build''
                      | Some b \<Rightarrow> if b = [] then ''build'' else b);
             kernel_elf = joinpath w (joinpath w build ''zephyr'') ''zephyr.elf''
         in
         if \<not> present w server_proc kernel_elf then
           (Died (''Kernel not found: '' @ kernel_elf @ newline @
                  ''Build first with: west build -b '' @ board a @ '' 9p4z/samples/9p_client''),
            [Os_path_exists (socket a), Path_exists kernel_elf] @ terminate server_proc)
         else
           (let cmd = qemu_cmd a kernel_elf;
                t = [Os_path_exists (socket a), Path_exists kernel_elf,
                     Print ''Running QEMU with 9P client...'',
                     Print (''Command: '' @ join_space cmd),
                     Print [],
                     Subprocess_run cmd]
            in
            case qemu_exit w of
              None \<Rightarrow> (Raised FileNotFoundError, t @ stop_server w server_proc)
            | Some c \<Rightarrow>
                if sigint w Consumer_wait then
                  (Returned, t @ [Print (newline @ ''QEMU stopped'')] @ stop_server w server_proc)
                else (Returned, t @ stop_server w server_proc))))"

text \<open>\<^verbatim>\<open>NinePRun.do_run\<close> (lines 141-203).\<close>

definition run_do_run :: "run_args \<Rightarrow> world \<Rightarrow> result \<times> event list" where
  "run_do_run a w =
     (case auto_start a w of
        (Inl r, t) \<Rightarrow> (r, t)
      | (Inr server_proc, t) \<Rightarrow>
          (case launch a w server_proc of (r, t') \<Rightarrow> (r, t @ t')))"

subsection \<open>Observations on the calls made\<close>

text \<open>A call that starts an exporter and server pipeline: \<^verbatim>\<open>os.system\<close> or \<^verbatim>\<open>Popen\<close>.\<close>

fun pipeline_spawn :: "event \<Rightarrow> bool" where
  "pipeline_spawn (Os_system c) = True"
| "pipeline_spawn (Popen c sh ss) = True"
| "pipeline_spawn e = False"

text \<open>
  A spawn whose child is made the leader of a new session and process group: a
  \<^verbatim>\<open>Popen\<close> with the \<^verbatim>\<open>os.setsid\<close> hook. \<^verbatim>\<open>os.system\<close> asks for no new group.
\<close>

fun leads_new_group :: "event \<Rightarrow> bool" where
  "leads_new_group (Popen c sh ss) = ss"
| "leads_new_group e = False"

text \<open>A signal to a whole process group, and a signal to one process.\<close>

fun group_signal :: "event \<Rightarrow> bool" where
  "group_signal (Os_killpg g s) = True"
| "group_signal e = False"

fun process_signal :: "event \<Rightarrow> bool" where
  "process_signal (Popen_terminate p) = True"
| "process_signal e = False"

definition group_signals :: "event list \<Rightarrow> nat" where
  "group_signals t = length (filter group_signal t)"

text \<open>The command lines given to \<^verbatim>\<open>subprocess.run\<close>, in order.\<close>

fun subprocess_cmds :: "event list \<Rightarrow> string list list" where
  "subprocess_cmds [] = []"
| "subprocess_cmds (Subprocess_run c # es) = c # subprocess_cmds es"
| "subprocess_cmds (e # es) = subprocess_cmds es"

text \<open>The calls made after the first pipeline spawn, \<open>None\<close> when there is no spawn.\<close>

fun after_spawn :: "event list \<Rightarrow> event list option" where
  "after_spawn [] = None"
| "after_spawn (e # es) = (if pipeline_spawn e then Some es else after_spawn es)"

fun sleep :: "event \<Rightarrow> bool" where
  "sleep (Time_sleep d) = True"
| "sleep e = False"

text \<open>A look at the file system: what a readiness poll would be made of.\<close>

fun probe :: "event \<Rightarrow> bool" where
  "probe (Os_path_exists p) = True"
| "probe (Path_exists p) = True"
| "probe (Is_dir p) = True"
| "probe e = False"

subsection \<open>Sample inputs\<close>

text \<open>The defaults of the two parsers, with \<^verbatim>\<open>/srv/export\<close> as the directory served.\<close>

definition serve_defaults :: serve_args where
  "serve_defaults =
     \<lparr>directory = ''/srv/export'', serve_args.socket = ''/tmp/9p.sock'', port = None,
      daemon = False\<rparr>"

definition run_defaults :: run_args where
  "run_defaults =
     \<lparr>run_args.socket = ''/tmp/9p.sock'', board = ''qemu_x86'', build_dir = None,
      serve_dir = None, memory = 32\<rparr>"

text \<open>
  A machine where \<^verbatim>\<open>/srv/export\<close> is a directory, both tools are installed, the kernel
  is built, a server already listens on \<^verbatim>\<open>/tmp/9p.sock\<close>, a pipeline binds its socket
  within the settle delay, nobody interrupts and the emulator exits with 0.
\<close>

definition ready_world :: world where
  "ready_world =
     \<lparr>resolve = (\<lambda>p. p),
      joinpath = (\<lambda>a b. a @ ''/'' @ b),
      is_dir = (\<lambda>p. p = ''/srv/export''),
      which_ok = (\<lambda>c. True),
      unlink_fails = (\<lambda>p. False),
      exists_at_entry = (\<lambda>p. p = ''/tmp/9p.sock'' \<or> p = ''build/zephyr/zephyr.elf''),
      exists_after_settle = (\<lambda>p. p = ''/tmp/9p.sock'' \<or> p = ''build/zephyr/zephyr.elf''),
      popen_pid = Some 4242,
      pgid = (\<lambda>p. p),
      sigint = (\<lambda>s. False),
      qemu_exit = Some 0\<rparr>"

text \<open>The same machine with no server running and a pipeline that has not bound its
  socket when the settle delay is over.\<close>

definition slow_world :: world where
  "slow_world =
     ready_world
       \<lparr>exists_at_entry := (\<lambda>p. p = ''build/zephyr/zephyr.elf''),
        exists_after_settle := (\<lambda>p. p = ''build/zephyr/zephyr.elf'')\<rparr>"

section \<open>Properties\<close>

subsection \<open>Auxiliary facts on the subprocesses of NinePRun\<close>

lemmas run_eval =
  run_do_run_def auto_start_def launch_def present_def terminate_def stop_server_def
  qemu_cmd_def run_defaults_def ready_world_def slow_world_def str_int_def str_nat.simps
  newline_def group_signals_def Let_def

lemmas serve_eval =
  serve_do_run_def serve_addr_def unix_addr_def serve_start_def check_command_def
  truthy_int_def serve_defaults_def ready_world_def slow_world_def str_int_def
  str_nat.simps newline_def Let_def

lemma subprocess_cmds_append:
  "subprocess_cmds (xs @ ys) = subprocess_cmds xs @ subprocess_cmds ys"
  by (induction xs rule: subprocess_cmds.induct) simp_all

lemma subprocess_cmds_terminate: "subprocess_cmds (terminate sp) = []"
  by (simp add: terminate_def split: option.splits)

lemma subprocess_cmds_stop_server: "subprocess_cmds (stop_server w sp) = []"
  by (simp add: stop_server_def split: option.splits)

text \<open>The start of the pipeline runs no subprocess through \<^verbatim>\<open>subprocess.run\<close>.\<close>

lemma auto_start_no_subprocess: "subprocess_cmds (snd (auto_start a w)) = []"
  by (simp add: auto_start_def Let_def split: option.splits)

text \<open>The start of the pipeline reads neither the emulator's exit code nor the board.\<close>

lemma auto_start_qemu_exit: "auto_start a (w\<lparr>qemu_exit := x\<rparr>) = auto_start a w"
  by (simp add: auto_start_def Let_def cong: option.case_cong if_cong)

lemma auto_start_board: "auto_start (a\<lparr>board := b\<rparr>) w = auto_start a w"
  by (simp add: auto_start_def Let_def cong: option.case_cong if_cong)

lemma launch_exit_code:
  "launch a (w\<lparr>qemu_exit := Some c\<rparr>) sp = launch a (w\<lparr>qemu_exit := Some c'\<rparr>) sp"
  by (simp add: launch_def present_def stop_server_def Let_def cong: option.case_cong if_cong)

lemma launch_board_trace: "snd (launch (a\<lparr>board := b\<rparr>) w sp) = snd (launch a w sp)"
  by (simp add: launch_def qemu_cmd_def Let_def split: option.splits)

lemma launch_board_result:
  "fst (launch (a\<lparr>board := b\<rparr>) w sp) = fst (launch a w sp) \<or>
   (\<exists>k. fst (launch (a\<lparr>board := b\<rparr>) w sp) =
      Died (''Kernel not found: '' @ k @ newline @
            ''Build first with: west build -b '' @ b @ '' 9p4z/samples/9p_client''))"
  by (auto simp add: launch_def Let_def split: option.splits)

text \<open>At most one subprocess is run by the second half of \<^verbatim>\<open>NinePRun.do_run\<close>: the emulator.\<close>

lemma launch_subprocess_cmds:
  "subprocess_cmds (snd (launch a w sp)) = [] \<or>
   (\<exists>k. subprocess_cmds (snd (launch a w sp)) = [qemu_cmd a k])"
  by (auto simp add: launch_def Let_def subprocess_cmds_append subprocess_cmds_terminate
      subprocess_cmds_stop_server split: option.splits)

lemma launch_returns:
  "qemu_exit w = Some c \<Longrightarrow> subprocess_cmds (snd (launch a w sp)) \<noteq> [] \<Longrightarrow>
   fst (launch a w sp) = Returned"
  by (simp add: launch_def Let_def subprocess_cmds_append subprocess_cmds_terminate
      subprocess_cmds_stop_server split: if_splits)

subsection \<open>Auxiliary facts on the pipeline command of NinePServe\<close>

lemma serve_start_spawns:
  "Os_system (''9pex '' @ dir @ '' | 9pserve '' @ addr @ (if daemon a then '' &'' else []))
     \<in> set (snd (serve_start a w dir addr))"
  by (simp add: serve_start_def Let_def)

lemma serve_start_result:
  "fst (serve_start a w dir addr) = Returned \<or>
   fst (serve_start a w dir addr) = Raised KeyboardInterrupt"
  by (simp add: serve_start_def Let_def)

lemma serve_start_system:
  "Os_system c \<in> set (snd (serve_start a w dir addr)) \<Longrightarrow>
   c = ''9pex '' @ dir @ '' | 9pserve '' @ addr @ (if daemon a then '' &'' else [])"
  by (simp add: serve_start_def Let_def split: if_splits)

lemma serve_addr_no_system: "Os_system c \<notin> set (snd (serve_addr a w))"
  by (simp add: serve_addr_def unix_addr_def split: option.splits)

lemma serve_addr_value:
  "fst (serve_addr a w) = Inr x \<Longrightarrow>
   x = (case port a of
          None \<Rightarrow> ''unix!'' @ serve_args.socket a
        | Some p \<Rightarrow> if p \<noteq> 0 then ''tcp!*!'' @ str_int p else ''unix!'' @ serve_args.socket a)"
  by (auto simp add: serve_addr_def unix_addr_def split: option.splits if_splits)

lemma serve_addr_result:
  "fst (serve_addr a w) = Inl r \<Longrightarrow> r = Raised OSError"
  by (auto simp add: serve_addr_def unix_addr_def split: option.splits if_splits)

lemma serve_addr_tcp:
  "port a = Some p \<Longrightarrow> p \<noteq> 0 \<Longrightarrow> fst (serve_addr a w) = Inr (''tcp!*!'' @ str_int p)"
  by (simp add: serve_addr_def)

lemma serve_addr_unix:
  "port a = None \<or> port a = Some 0 \<Longrightarrow>
   \<not> (exists_at_entry w (serve_args.socket a) \<and> unlink_fails w (serve_args.socket a)) \<Longrightarrow>
   fst (serve_addr a w) = Inr (''unix!'' @ serve_args.socket a)"
  by (auto simp add: serve_addr_def unix_addr_def)

text \<open>\<^verbatim>\<open>NinePServe.do_run\<close> once its three checks have passed.\<close>

lemma serve_do_run_checked:
  assumes "is_dir w (resolve w (directory a))" and "which_ok w ''9pex''"
    and "which_ok w ''9pserve''"
  shows "serve_do_run a w =
     (case serve_addr a w of
        (Inl r, ta) \<Rightarrow>
          (r, [Is_dir (resolve w (directory a)), Subprocess_run [''which'', ''9pex''],
               Subprocess_run [''which'', ''9pserve'']] @ ta)
      | (Inr addr, ta) \<Rightarrow>
          (fst (serve_start a w (resolve w (directory a)) addr),
           [Is_dir (resolve w (directory a)), Subprocess_run [''which'', ''9pex''],
            Subprocess_run [''which'', ''9pserve'']] @ ta @
           snd (serve_start a w (resolve w (directory a)) addr)))"
  using assms
  by (simp add: serve_do_run_def check_command_def Let_def split_beta
      split: prod.splits sum.splits)

lemma serve_do_run_system:
  assumes "Os_system c \<in> set (snd (serve_do_run a w))"
  shows "is_dir w (resolve w (directory a)) \<and> which_ok w ''9pex'' \<and> which_ok w ''9pserve''"
  using assms
  by (simp add: serve_do_run_def check_command_def Let_def split: if_splits)


lemma serve_do_run_system_cmd:
  assumes "Os_system c \<in> set (snd (serve_do_run a w))"
  shows "c = ''9pex '' @ resolve w (directory a) @ '' | 9pserve '' @
             (case port a of
                None \<Rightarrow> ''unix!'' @ serve_args.socket a
              | Some p \<Rightarrow>
                  if p \<noteq> 0 then ''tcp!*!'' @ str_int p else ''unix!'' @ serve_args.socket a) @
             (if daemon a then '' &'' else [])"
proof -
  obtain r ta where sa: "serve_addr a w = (r, ta)"
    by (cases "serve_addr a w")
  have checked: "is_dir w (resolve w (directory a))" "which_ok w ''9pex''" "which_ok w ''9pserve''"
    using serve_do_run_system [OF assms] by simp_all
  note run = serve_do_run_checked [OF checked]
  have ta: "Os_system c \<notin> set ta"
    using serve_addr_no_system [of c a w] sa by simp
  show ?thesis
  proof (cases r)
    case (Inl e)
    then show ?thesis
      using assms run sa ta by simp
  next
    case (Inr addr)
    then have "Os_system c \<in> set (snd (serve_start a w (resolve w (directory a)) addr))"
      using assms run sa ta by simp
    then have "c = ''9pex '' @ resolve w (directory a) @ '' | 9pserve '' @ addr @
                   (if daemon a then '' &'' else [])"
      by (rule serve_start_system)
    moreover have "addr = (case port a of
                None \<Rightarrow> ''unix!'' @ serve_args.socket a
              | Some p \<Rightarrow>
                  if p \<noteq> 0 then ''tcp!*!'' @ str_int p else ''unix!'' @ serve_args.socket a)"
      using serve_addr_value [of a w addr] sa Inr by simp
    ultimately show ?thesis
      by simp
  qed
qed

subsection \<open>Auxiliary facts on spawns, sleeps and signals\<close>

lemma auto_start_groups:
  "\<forall>e \<in> set (snd (auto_start a w)). pipeline_spawn e \<longrightarrow> leads_new_group e"
  by (simp add: auto_start_def Let_def split: option.splits)

lemma terminate_no_spawn: "\<forall>e \<in> set (terminate sp). \<not> pipeline_spawn e"
  by (cases sp) (simp_all add: terminate_def)

lemma stop_server_no_spawn: "\<forall>e \<in> set (stop_server w sp). \<not> pipeline_spawn e"
  by (cases sp) (simp_all add: stop_server_def)

lemma launch_no_spawn: "\<forall>e \<in> set (snd (launch a w sp)). \<not> pipeline_spawn e"
  using terminate_no_spawn [of sp] stop_server_no_spawn [of w sp]
  by (simp add: launch_def Let_def split: option.splits)

lemma serve_addr_no_group: "\<forall>e \<in> set (snd (serve_addr a w)). \<not> leads_new_group e"
  by (simp add: serve_addr_def unix_addr_def split: option.splits)

lemma serve_start_no_group:
  "\<forall>e \<in> set (snd (serve_start a w dir addr)). \<not> leads_new_group e"
  by (simp add: serve_start_def Let_def)

lemma serve_do_run_no_group: "\<forall>e \<in> set (snd (serve_do_run a w)). \<not> leads_new_group e"
  using serve_addr_no_group [of a w] serve_start_no_group [of a w]
  by (auto simp add: serve_do_run_def check_command_def Let_def split_beta
      split: prod.splits sum.splits)

lemma auto_start_popen:
  "Popen c sh ss \<in> set (snd (auto_start a w)) \<Longrightarrow>
   \<exists>d. serve_dir a = Some d \<and> c = ''9pex '' @ resolve w d @ '' | 9pserve unix!'' @ socket a"
  by (auto simp add: auto_start_def Let_def split: option.splits if_splits)

lemma run_do_run_popen:
  assumes "Popen c sh ss \<in> set (snd (run_do_run a w))"
  shows "\<exists>d. serve_dir a = Some d \<and> c = ''9pex '' @ resolve w d @ '' | 9pserve unix!'' @ socket a"
proof -
  obtain r t where at: "auto_start a w = (r, t)"
    by (cases "auto_start a w")
  have "Popen c sh ss \<in> set t"
  proof (cases r)
    case (Inl e)
    then show ?thesis
      using assms at by (simp add: run_do_run_def)
  next
    case (Inr sp)
    have "Popen c sh ss \<notin> set (snd (launch a w sp))"
      using launch_no_spawn [of a w sp] by auto
    then show ?thesis
      using assms at Inr by (simp add: run_do_run_def split_beta)
  qed
  then show ?thesis
    using auto_start_popen [of c sh ss a w] at by simp
qed

lemma run_do_run_subprocess_cmds:
  "subprocess_cmds (snd (run_do_run a w)) = [] \<or>
   (\<exists>k. subprocess_cmds (snd (run_do_run a w)) = [qemu_cmd a k])"
proof -
  obtain r t where at: "auto_start a w = (r, t)"
    by (cases "auto_start a w")
  have t: "subprocess_cmds t = []"
    using auto_start_no_subprocess [of a w] at by simp
  show ?thesis
  proof (cases r)
    case (Inl e)
    then show ?thesis
      using at t by (simp add: run_do_run_def)
  next
    case (Inr sp)
    then show ?thesis
      using at t launch_subprocess_cmds [where a = a and w = w and sp = sp]
      by (simp add: run_do_run_def split_beta subprocess_cmds_append)
  qed
qed

text \<open>
  The address forms away from port 0: \<open>serve_do_run_system_cmd\<close> gives the form of every
  pipeline command of \<^verbatim>\<open>9p-serve\<close>, \<open>run_do_run_popen\<close> that of \<^verbatim>\<open>9p-run\<close>, and the
  next two facts the address handed to the emulator and its difference from the server's.
\<close>

lemma run_do_run_serial_address:
  assumes "cmd \<in> set (subprocess_cmds (snd (run_do_run a w)))"
  shows "take 2 (drop 9 cmd) = [''-serial'', ''unix:'' @ socket a]"
proof -
  have "take 2 (drop 9 (qemu_cmd a k)) = [''-serial'', ''unix:'' @ socket a]" for k
    by (simp add: qemu_cmd_def)
  then show ?thesis
    using assms run_do_run_subprocess_cmds [of a w] by auto
qed

lemma unix_forms_differ: "''unix!'' @ path \<noteq> ''unix:'' @ path"
  by simp

lemma after_spawn_append:
  "after_spawn (xs @ ys) =
     (case after_spawn xs of None \<Rightarrow> after_spawn ys | Some r \<Rightarrow> Some (r @ ys))"
  by (induction xs) simp_all

lemma after_spawn_none: "\<forall>e \<in> set xs. \<not> pipeline_spawn e \<Longrightarrow> after_spawn xs = None"
  by (induction xs) simp_all

lemma auto_start_settle:
  "popen_pid w \<noteq> None \<Longrightarrow> after_spawn (snd (auto_start a w)) = Some es \<Longrightarrow>
   es = [Time_sleep 500]"
  by (auto simp add: auto_start_def Let_def split: option.splits if_splits)

lemma terminate_quiet: "filter sleep (terminate sp) = [] \<and> filter probe (terminate sp) = []"
  by (cases sp) (simp_all add: terminate_def)

lemma stop_server_quiet:
  "filter sleep (stop_server w sp) = [] \<and> filter probe (stop_server w sp) = []"
  by (cases sp) (simp_all add: stop_server_def)

lemma launch_no_sleep: "filter sleep (snd (launch a w sp)) = []"
  by (simp add: launch_def Let_def terminate_quiet stop_server_quiet split: option.splits)

lemma launch_probes: "length (filter probe (snd (launch a w sp))) \<le> 2"
  by (simp add: launch_def Let_def terminate_quiet stop_server_quiet split: option.splits)

lemma serve_addr_no_spawn: "\<forall>e \<in> set (snd (serve_addr a w)). \<not> pipeline_spawn e"
  by (simp add: serve_addr_def unix_addr_def split: option.splits)

lemma serve_start_settle:
  "daemon a \<Longrightarrow>
   \<exists>rest. after_spawn (snd (serve_start a w dir addr)) = Some (Time_sleep 500 # rest) \<and>
          filter sleep rest = [] \<and> filter probe rest = []"
  by (simp add: serve_start_def Let_def)

lemma serve_do_run_settle:
  assumes "daemon a" and "after_spawn (snd (serve_do_run a w)) = Some es"
  shows "\<exists>rest. es = Time_sleep 500 # rest \<and> filter sleep rest = [] \<and> filter probe rest = []"
proof -
  obtain r ta where sa: "serve_addr a w = (r, ta)"
    by (cases "serve_addr a w")
  have ta: "after_spawn ta = None"
    using serve_addr_no_spawn [of a w] sa by (simp add: after_spawn_none)
  have checked: "is_dir w (resolve w (directory a)) \<and> which_ok w ''9pex'' \<and> which_ok w ''9pserve''"
    using assms(2)
    by (auto simp add: serve_do_run_def check_command_def Let_def split: if_splits)
  then have run: "serve_do_run a w =
     (case serve_addr a w of
        (Inl r, ta) \<Rightarrow>
          (r, [Is_dir (resolve w (directory a)), Subprocess_run [''which'', ''9pex''],
               Subprocess_run [''which'', ''9pserve'']] @ ta)
      | (Inr addr, ta) \<Rightarrow>
          (fst (serve_start a w (resolve w (directory a)) addr),
           [Is_dir (resolve w (directory a)), Subprocess_run [''which'', ''9pex''],
            Subprocess_run [''which'', ''9pserve'']] @ ta @
           snd (serve_start a w (resolve w (directory a)) addr)))"
    using serve_do_run_checked [of w a] by simp
  show ?thesis
  proof (cases r)
    case (Inl e)
    then show ?thesis
      using assms(2) run sa ta by simp
  next
    case (Inr addr)
    obtain rest where rest:
      "after_spawn (snd (serve_start a w (resolve w (directory a)) addr)) =
         Some (Time_sleep 500 # rest)"
      "filter sleep rest = []" "filter probe rest = []"
      using serve_start_settle [OF assms(1), of w "resolve w (directory a)" addr] by blast
    have "es = Time_sleep 500 # rest"
      using assms(2) run sa ta Inr rest(1) by (simp add: after_spawn_append)
    then show ?thesis
      using rest by simp
  qed
qed

text \<open>
  When \<^verbatim>\<open>NinePRun.do_run\<close> signals the pipeline's process group: once, if it has started
  a pipeline and has run the emulator, and not at all otherwise.
\<close>

lemma group_signals_append: "group_signals (xs @ ys) = group_signals xs + group_signals ys"
  by (simp add: group_signals_def)

lemma auto_start_group_signals: "group_signals (snd (auto_start a w)) = 0"
  by (simp add: auto_start_def group_signals_def Let_def split: option.splits)

lemma launch_group_signals:
  "group_signals (snd (launch a w sp)) =
     (if sp \<noteq> None \<and> subprocess_cmds (snd (launch a w sp)) \<noteq> [] then 1 else 0)"
  by (cases sp)
    (simp_all add: launch_def group_signals_def terminate_def stop_server_def Let_def
      split: option.splits)

lemma run_group_signals:
  "group_signals (snd (run_do_run a w)) =
     (if (\<exists>pid. fst (auto_start a w) = Inr (Some pid)) \<and>
         subprocess_cmds (snd (run_do_run a w)) \<noteq> []
      then 1 else 0)"
proof -
  obtain r t where at: "auto_start a w = (r, t)"
    by (cases "auto_start a w")
  have t: "group_signals t = 0" "subprocess_cmds t = []"
    using auto_start_group_signals [of a w] auto_start_no_subprocess [of a w] at by simp_all
  show ?thesis
  proof (cases r)
    case (Inl e)
    then show ?thesis
      using at t by (simp add: run_do_run_def)
  next
    case (Inr sp)
    then show ?thesis
      using at t launch_group_signals [of a w sp]
      by (auto simp add: run_do_run_def split_beta group_signals_append subprocess_cmds_append)
  qed
qed

subsection \<open>Teardown of the pipeline started by 9p-run\<close>

text \<open>
  C1. The claim: whenever \<^verbatim>\<open>9p-run\<close> has started a pipeline, its process group has been
  sent a termination signal exactly once when the call ends, whether the emulator exited,
  a check failed or the operator interrupted.
  The code does not do this when the socket check fails. With \<^verbatim>\<open>--serve-dir /srv/export\<close>
  on a machine where the pipeline has not bound \<^verbatim>\<open>/tmp/9p.sock\<close> when the settle delay is
  over, the pipeline is spawned, \<^verbatim>\<open>server_proc.terminate()\<close> signals the shell process
  4242 alone, \<^verbatim>\<open>self.die\<close> ends the call, and no \<^verbatim>\<open>os.killpg\<close> is made: the process group
  has received no signal. The \<^verbatim>\<open>finally\<close> clause, which does signal the group, guards
  \<^verbatim>\<open>subprocess.run\<close> only.
\<close>

theorem run_socket_missing_signals_leader_only:
  "run_do_run (run_defaults\<lparr>serve_dir := Some ''/srv/export''\<rparr>) slow_world =
     (Died (''Socket not found: /tmp/9p.sock'' @ newline @
            ''Start server first with: west 9p-serve''),
      [Is_dir ''/srv/export'', Os_path_exists ''/tmp/9p.sock'',
       Print ''Starting 9P server for /srv/export...'',
       Popen ''9pex /srv/export | 9pserve unix!/tmp/9p.sock'' True True,
       Time_sleep 500, Os_path_exists ''/tmp/9p.sock'', Popen_terminate 4242])
   \<and> group_signals
        (snd (run_do_run (run_defaults\<lparr>serve_dir := Some ''/srv/export''\<rparr>) slow_world)) = 0
   \<and> filter process_signal
        (snd (run_do_run (run_defaults\<lparr>serve_dir := Some ''/srv/export''\<rparr>) slow_world)) =
       [Popen_terminate 4242]"
  by (simp add: run_eval)

subsection \<open>The emulator's exit code\<close>

text \<open>
  C2 as claimed: the exit status of the session is the exit code of the emulator. It is
  not: with the emulator exiting with 1, \<^verbatim>\<open>do_run\<close> returns as it does when the emulator
  exits with 0, and makes the same calls.
\<close>

theorem run_exit_code_discarded_example:
  "run_do_run run_defaults (ready_world\<lparr>qemu_exit := Some 1\<rparr>) =
   run_do_run run_defaults (ready_world\<lparr>qemu_exit := Some 0\<rparr>)
   \<and> fst (run_do_run run_defaults (ready_world\<lparr>qemu_exit := Some 1\<rparr>)) = Returned"
  by (simp add: run_eval)

text \<open>
  C2, amended: \<^verbatim>\<open>NinePRun.do_run\<close> discards the exit code of the emulator. Its result and
  its calls are the same for any two exit codes \<open>c\<close> and \<open>c'\<close>, and whenever the emulator
  was run and exited, \<^verbatim>\<open>do_run\<close> returns normally, whatever the code was.
\<close>

theorem run_exit_code_discarded:
  "run_do_run a (w\<lparr>qemu_exit := Some c\<rparr>) = run_do_run a (w\<lparr>qemu_exit := Some c'\<rparr>)
   \<and> (subprocess_cmds (snd (run_do_run a (w\<lparr>qemu_exit := Some c\<rparr>))) \<noteq> [] \<longrightarrow>
        fst (run_do_run a (w\<lparr>qemu_exit := Some c\<rparr>)) = Returned)"
proof -
  obtain r t where at: "auto_start a w = (r, t)"
    by (cases "auto_start a w")
  have t: "subprocess_cmds t = []"
    using auto_start_no_subprocess [of a w] at by simp
  show ?thesis
  proof (cases r)
    case (Inl e)
    then show ?thesis
      using at t by (simp add: run_do_run_def auto_start_qemu_exit)
  next
    case (Inr sp)
    have "fst (launch a (w\<lparr>qemu_exit := Some c\<rparr>) sp) = Returned"
      if "subprocess_cmds (snd (launch a (w\<lparr>qemu_exit := Some c\<rparr>) sp)) \<noteq> []"
      using that
        launch_returns [where w = "w\<lparr>qemu_exit := Some c\<rparr>" and c = c and a = a and sp = sp]
      by simp
    then show ?thesis
      using at t Inr launch_exit_code [where a = a and w = w and c = c and c' = c' and sp = sp]
      by (auto simp add: run_do_run_def auto_start_qemu_exit subprocess_cmds_append
          split: prod.splits)
  qed
qed

theorem run_exit_code_discarded_witness:
  "subprocess_cmds (snd (run_do_run run_defaults (ready_world\<lparr>qemu_exit := Some 3\<rparr>))) \<noteq> []
   \<and> fst (run_do_run run_defaults (ready_world\<lparr>qemu_exit := Some 3\<rparr>)) = Returned
   \<and> run_do_run run_defaults (ready_world\<lparr>qemu_exit := Some 3\<rparr>) =
       run_do_run run_defaults (ready_world\<lparr>qemu_exit := Some 0\<rparr>)"
proof -
  have ran:
    "subprocess_cmds (snd (run_do_run run_defaults (ready_world\<lparr>qemu_exit := Some 3\<rparr>))) \<noteq> []"
    by (simp add: run_eval)
  show ?thesis
    using ran
      run_exit_code_discarded [where a = run_defaults and w = ready_world and c = 3 and c' = 0]
    by blast
qed

subsection \<open>Interruption during the settle delay\<close>

text \<open>
  C3. The claim: an interrupt of the operator at any point where the command blocks stops
  the wait, tears down what the session owns and ends the call in a recognised state.
  The code does not do this at the settle delay of \<^verbatim>\<open>9p-run\<close>: \<^verbatim>\<open>time.sleep(0.5)\<close> at line
  158 stands outside the \<^verbatim>\<open>try\<close> statement of line 196. With \<^verbatim>\<open>--serve-dir /srv/export\<close>
  and an interrupt during the delay, \<^verbatim>\<open>KeyboardInterrupt\<close> propagates out of \<^verbatim>\<open>do_run\<close>
  and the pipeline just spawned is sent no signal at all.
\<close>

theorem run_interrupt_in_settle_delay_escapes:
  "run_do_run (run_defaults\<lparr>serve_dir := Some ''/srv/export''\<rparr>)
       (ready_world\<lparr>sigint := (\<lambda>s. s = Settle_delay)\<rparr>) =
     (Raised KeyboardInterrupt,
      [Is_dir ''/srv/export'', Os_path_exists ''/tmp/9p.sock'', Os_unlink ''/tmp/9p.sock'',
       Print ''Starting 9P server for /srv/export...'',
       Popen ''9pex /srv/export | 9pserve unix!/tmp/9p.sock'' True True,
       Time_sleep 500])"
  by (simp add: run_eval)

subsection \<open>Validation of the endpoint\<close>

text \<open>
  C4 as claimed: a non-positive port or an empty socket path is refused with
  \<^verbatim>\<open>InvalidEndpoint\<close> and no process is started from it. The code has no such check:
  with \<^verbatim>\<open>--port -1\<close>, \<^verbatim>\<open>9p-serve\<close> starts the pipeline on \<^verbatim>\<open>tcp!*!-1\<close> and returns.
\<close>

theorem serve_negative_port_starts_pipeline:
  "serve_do_run (serve_defaults\<lparr>port := Some (- 1)\<rparr>) ready_world =
     (Returned,
      [Is_dir ''/srv/export'', Subprocess_run [''which'', ''9pex''],
       Subprocess_run [''which'', ''9pserve''],
       Print ''Starting 9P server on TCP port -1...'',
       Print ''Command: 9pex /srv/export | 9pserve tcp!*!-1'',
       Print ''Press Ctrl+C to stop server'',
       Os_system ''9pex /srv/export | 9pserve tcp!*!-1''])"
  by (simp add: serve_eval)

text \<open>
  C4, amended: \<^verbatim>\<open>NinePServe.do_run\<close> validates neither the port nor the socket path. Once
  the directory and both tools are found, it starts the pipeline on \<^verbatim>\<open>tcp!*!<port>\<close> for
  every port other than 0, the negative ones included, and on \<^verbatim>\<open>unix!<path>\<close> when the
  port is absent or 0, for every path, the empty one included (unless the removal of an
  existing socket fails); and no call of \<^verbatim>\<open>self.die\<close> is made for the endpoint.
\<close>

theorem serve_endpoint_not_validated:
  assumes "is_dir w (resolve w (directory a))" and "which_ok w ''9pex''"
    and "which_ok w ''9pserve''"
  shows "(\<forall>p. port a = Some p \<and> p \<noteq> 0 \<longrightarrow>
            Os_system (''9pex '' @ resolve w (directory a) @ '' | 9pserve tcp!*!'' @ str_int p @
                       (if daemon a then '' &'' else []))
              \<in> set (snd (serve_do_run a w)))
       \<and> ((port a = None \<or> port a = Some 0) \<and>
           \<not> (exists_at_entry w (serve_args.socket a) \<and> unlink_fails w (serve_args.socket a)) \<longrightarrow>
            Os_system (''9pex '' @ resolve w (directory a) @ '' | 9pserve unix!'' @
                       serve_args.socket a @ (if daemon a then '' &'' else []))
              \<in> set (snd (serve_do_run a w)))
       \<and> (\<forall>m. fst (serve_do_run a w) \<noteq> Died m)"
proof -
  obtain r ta where sa: "serve_addr a w = (r, ta)"
    by (cases "serve_addr a w")
  note run = serve_do_run_checked [OF assms]
  have tcp: "Os_system (''9pex '' @ resolve w (directory a) @ '' | 9pserve tcp!*!'' @ str_int p @
                       (if daemon a then '' &'' else []))
              \<in> set (snd (serve_do_run a w))"
    if "port a = Some p" and "p \<noteq> 0" for p
  proof -
    have "r = Inr (''tcp!*!'' @ str_int p)"
      using serve_addr_tcp [OF that, of w] sa by simp
    then show ?thesis
      using run sa
        serve_start_spawns [where dir = "resolve w (directory a)"
          and addr = "''tcp!*!'' @ str_int p" and a = a and w = w]
      by simp
  qed
  have unix: "Os_system (''9pex '' @ resolve w (directory a) @ '' | 9pserve unix!'' @
                       serve_args.socket a @ (if daemon a then '' &'' else []))
              \<in> set (snd (serve_do_run a w))"
    if "port a = None \<or> port a = Some 0"
      and "\<not> (exists_at_entry w (serve_args.socket a) \<and> unlink_fails w (serve_args.socket a))"
  proof -
    have "r = Inr (''unix!'' @ serve_args.socket a)"
      using serve_addr_unix [OF that] sa by simp
    then show ?thesis
      using run sa
        serve_start_spawns [where dir = "resolve w (directory a)"
          and addr = "''unix!'' @ serve_args.socket a" and a = a and w = w]
      by simp
  qed
  have nodie: "fst (serve_do_run a w) \<noteq> Died m" for m
  proof (cases r)
    case (Inl e)
    then have "e = Raised OSError"
      using serve_addr_result [of a w e] sa by simp
    then show ?thesis
      using run sa Inl by simp
  next
    case (Inr addr)
    then show ?thesis
      using run sa serve_start_result [of a w "resolve w (directory a)" addr] by auto
  qed
  show ?thesis
    using tcp unix nodie by blast
qed

theorem serve_endpoint_not_validated_witness:
  "is_dir ready_world (resolve ready_world (directory serve_defaults))
   \<and> which_ok ready_world ''9pex'' \<and> which_ok ready_world ''9pserve''
   \<and> Os_system ''9pex /srv/export | 9pserve tcp!*!-7''
       \<in> set (snd (serve_do_run (serve_defaults\<lparr>port := Some (- 7)\<rparr>) ready_world))
   \<and> Os_system ''9pex /srv/export | 9pserve unix!''
       \<in> set (snd (serve_do_run (serve_defaults\<lparr>serve_args.socket := []\<rparr>) ready_world))"
proof -
  have d: "is_dir ready_world (resolve ready_world (directory serve_defaults))"
    by (simp add: ready_world_def serve_defaults_def)
  have x: "which_ok ready_world ''9pex''" and s: "which_ok ready_world ''9pserve''"
    by (simp_all add: ready_world_def)
  have d1: "is_dir ready_world
              (resolve ready_world (directory (serve_defaults\<lparr>port := Some (- 7)\<rparr>)))"
    using d by simp
  have d2: "is_dir ready_world
              (resolve ready_world (directory (serve_defaults\<lparr>serve_args.socket := []\<rparr>)))"
    using d by simp
  have n: "str_int (- 7) = ''-7''"
    by (simp add: str_int_def str_nat.simps)
  have tcp: "Os_system ''9pex /srv/export | 9pserve tcp!*!-7''
       \<in> set (snd (serve_do_run (serve_defaults\<lparr>port := Some (- 7)\<rparr>) ready_world))"
    using serve_endpoint_not_validated [OF d1 x s] n
    by (simp add: serve_defaults_def ready_world_def)
  have unix: "Os_system ''9pex /srv/export | 9pserve unix!''
       \<in> set (snd (serve_do_run (serve_defaults\<lparr>serve_args.socket := []\<rparr>) ready_world))"
    using serve_endpoint_not_validated [OF d2 x s]
    by (simp add: serve_defaults_def ready_world_def)
  show ?thesis
    using d x s tcp unix by blast
qed


subsection \<open>Checks before a pipeline is started\<close>

text \<open>
  C5. The claim: in both commands, no pipeline is spawned unless \<^verbatim>\<open>9pex\<close> and \<^verbatim>\<open>9pserve\<close>
  are found on the search path and the directory exists.
  \<^verbatim>\<open>NinePServe.do_run\<close> checks all three; the auto-start of \<^verbatim>\<open>NinePRun.do_run\<close> checks
  the directory only. On a machine with neither tool installed, \<^verbatim>\<open>9p-run --serve-dir
  /srv/export\<close> calls \<^verbatim>\<open>which\<close> for neither and spawns the pipeline.
\<close>

theorem run_auto_start_no_tool_check:
  "run_do_run (run_defaults\<lparr>serve_dir := Some ''/srv/export''\<rparr>)
       (slow_world\<lparr>which_ok := (\<lambda>c. False)\<rparr>) =
     (Died (''Socket not found: /tmp/9p.sock'' @ newline @
            ''Start server first with: west 9p-serve''),
      [Is_dir ''/srv/export'', Os_path_exists ''/tmp/9p.sock'',
       Print ''Starting 9P server for /srv/export...'',
       Popen ''9pex /srv/export | 9pserve unix!/tmp/9p.sock'' True True,
       Time_sleep 500, Os_path_exists ''/tmp/9p.sock'', Popen_terminate 4242])"
  by (simp add: run_eval)

subsection \<open>Process groups\<close>

text \<open>
  C6 as claimed: every pipeline, those of \<^verbatim>\<open>9p-serve\<close> included, is spawned as the leader
  of a new process group. \<^verbatim>\<open>9p-serve\<close> with its defaults runs the pipeline with
  \<^verbatim>\<open>os.system\<close>, which asks for no new process group.
\<close>

theorem serve_pipeline_not_group_leader:
  "\<not> (\<forall>e \<in> set (snd (serve_do_run serve_defaults ready_world)).
         pipeline_spawn e \<longrightarrow> leads_new_group e)"
proof -
  have "Os_system ''9pex /srv/export | 9pserve unix!/tmp/9p.sock''
          \<in> set (snd (serve_do_run serve_defaults ready_world))"
    by (simp add: serve_eval)
  moreover have "pipeline_spawn (Os_system ''9pex /srv/export | 9pserve unix!/tmp/9p.sock'')"
    and "\<not> leads_new_group (Os_system ''9pex /srv/export | 9pserve unix!/tmp/9p.sock'')"
    by simp_all
  ultimately show ?thesis
    by blast
qed

text \<open>
  C6, amended: the pipeline that \<^verbatim>\<open>9p-run\<close> starts is spawned with \<^verbatim>\<open>Popen\<close> and the
  \<^verbatim>\<open>os.setsid\<close> hook, hence as the leader of a new session and process group;
  \<^verbatim>\<open>9p-serve\<close>, in the foreground and as a daemon, makes no call that asks for a new
  process group (it runs its pipeline with \<^verbatim>\<open>os.system\<close>).
\<close>

theorem pipeline_process_groups:
  "(\<forall>e \<in> set (snd (run_do_run a w)). pipeline_spawn e \<longrightarrow> leads_new_group e)
   \<and> (\<forall>e \<in> set (snd (serve_do_run b w)). \<not> leads_new_group e)"
proof -
  obtain r t where at: "auto_start a w = (r, t)"
    by (cases "auto_start a w")
  have t: "\<forall>e \<in> set t. pipeline_spawn e \<longrightarrow> leads_new_group e"
    using auto_start_groups [of a w] at by simp
  have "\<forall>e \<in> set (snd (run_do_run a w)). pipeline_spawn e \<longrightarrow> leads_new_group e"
  proof (cases r)
    case (Inl e)
    then show ?thesis
      using at t by (simp add: run_do_run_def)
  next
    case (Inr sp)
    then show ?thesis
      using at t launch_no_spawn [of a w sp]
      by (auto simp add: run_do_run_def split_beta)
  qed
  then show ?thesis
    using serve_do_run_no_group [of b w] by blast
qed

theorem pipeline_process_groups_witness:
  "Popen ''9pex /srv/export | 9pserve unix!/tmp/9p.sock'' True True
     \<in> set (snd (run_do_run (run_defaults\<lparr>serve_dir := Some ''/srv/export''\<rparr>) ready_world))
   \<and> pipeline_spawn (Popen ''9pex /srv/export | 9pserve unix!/tmp/9p.sock'' True True)
   \<and> leads_new_group (Popen ''9pex /srv/export | 9pserve unix!/tmp/9p.sock'' True True)
   \<and> Os_system ''9pex /srv/export | 9pserve unix!/tmp/9p.sock &''
     \<in> set (snd (serve_do_run (serve_defaults\<lparr>daemon := True\<rparr>) ready_world))
   \<and> \<not> leads_new_group (Os_system ''9pex /srv/export | 9pserve unix!/tmp/9p.sock &'')"
proof -
  have p: "Popen ''9pex /srv/export | 9pserve unix!/tmp/9p.sock'' True True
     \<in> set (snd (run_do_run (run_defaults\<lparr>serve_dir := Some ''/srv/export''\<rparr>) ready_world))"
    by (simp add: run_eval)
  have s: "pipeline_spawn (Popen ''9pex /srv/export | 9pserve unix!/tmp/9p.sock'' True True)"
    by simp
  have o: "Os_system ''9pex /srv/export | 9pserve unix!/tmp/9p.sock &''
     \<in> set (snd (serve_do_run (serve_defaults\<lparr>daemon := True\<rparr>) ready_world))"
    by (simp add: serve_eval)
  show ?thesis
    using p s o
      pipeline_process_groups [where a = "run_defaults\<lparr>serve_dir := Some ''/srv/export''\<rparr>" and w = ready_world
        and b = "serve_defaults\<lparr>daemon := True\<rparr>"]
    by blast
qed


subsection \<open>A missing socket\<close>

text \<open>
  C7. Whenever \<^verbatim>\<open>NinePRun.do_run\<close> reaches the socket check of line 161 (the start of the
  pipeline, if any, went through and left \<open>server_proc\<close>) and the socket path does not
  exist then, the call dies with the message that names the socket and tells to start the
  server first with \<^verbatim>\<open>west 9p-serve\<close>; the only calls after the socket check are those of
  \<open>terminate\<close>, and no subprocess has been run, the emulator in particular.
\<close>

theorem run_socket_missing_dies_before_consumer:
  assumes "auto_start a w = (Inr server_proc, t)"
    and "\<not> present w server_proc (socket a)"
  shows "run_do_run a w =
           (Died (''Socket not found: '' @ socket a @ newline @
                  ''Start server first with: west 9p-serve''),
            t @ [Os_path_exists (socket a)] @ terminate server_proc)
         \<and> subprocess_cmds (snd (run_do_run a w)) = []"
proof -
  have t: "subprocess_cmds t = []"
    using auto_start_no_subprocess [of a w] assms(1) by simp
  have r: "run_do_run a w =
           (Died (''Socket not found: '' @ socket a @ newline @
                  ''Start server first with: west 9p-serve''),
            t @ [Os_path_exists (socket a)] @ terminate server_proc)"
    using assms by (simp add: run_do_run_def launch_def)
  show ?thesis
    using t r by (simp add: subprocess_cmds_append subprocess_cmds_terminate)
qed

theorem run_socket_missing_dies_before_consumer_witness:
  "auto_start run_defaults slow_world = (Inr None, [])
   \<and> \<not> present slow_world None (socket run_defaults)
   \<and> run_do_run run_defaults slow_world =
       (Died (''Socket not found: /tmp/9p.sock'' @ newline @
              ''Start server first with: west 9p-serve''),
        [Os_path_exists ''/tmp/9p.sock''])
   \<and> subprocess_cmds (snd (run_do_run run_defaults slow_world)) = []"
proof -
  have a: "auto_start run_defaults slow_world = (Inr None, [])"
    by (simp add: auto_start_def run_defaults_def)
  have p: "\<not> present slow_world None (socket run_defaults)"
    by (simp add: present_def run_defaults_def slow_world_def ready_world_def)
  have s: "socket run_defaults = ''/tmp/9p.sock''"
    by (simp add: run_defaults_def)
  show ?thesis
    using a p run_socket_missing_dies_before_consumer [OF a p]
    by (simp add: s terminate_def)
qed

subsection \<open>Address forms\<close>

text \<open>
  C8. The claim: the address given to the server tool is \<^verbatim>\<open>unix!<path>\<close> for a Unix
  socket and \<^verbatim>\<open>tcp!*!<port>\<close> for a TCP port, and the address given to the emulator is
  \<^verbatim>\<open>unix:<path>\<close>.
  The code does not render the TCP form for port 0. The help of \<^verbatim>\<open>--port\<close> (line 45) reads
  ``TCP port to listen on (instead of Unix socket)'', but the test \<^verbatim>\<open>if args.port:\<close> of
  line 67 is false for 0: with \<^verbatim>\<open>--port 0\<close>, \<^verbatim>\<open>9p-serve\<close> removes the existing socket
  \<^verbatim>\<open>/tmp/9p.sock\<close>, announces a server on the Unix socket and starts the pipeline on
  \<^verbatim>\<open>unix!/tmp/9p.sock\<close>, not on \<^verbatim>\<open>tcp!*!0\<close>.
\<close>

theorem serve_port_zero_renders_unix_address:
  "serve_do_run (serve_defaults\<lparr>port := Some 0\<rparr>) ready_world =
     (Returned,
      [Is_dir ''/srv/export'', Subprocess_run [''which'', ''9pex''],
       Subprocess_run [''which'', ''9pserve''], Os_path_exists ''/tmp/9p.sock'',
       Os_unlink ''/tmp/9p.sock'',
       Print ''Starting 9P server on Unix socket /tmp/9p.sock...'',
       Print ''Command: 9pex /srv/export | 9pserve unix!/tmp/9p.sock'',
       Print ''Press Ctrl+C to stop server'',
       Os_system ''9pex /srv/export | 9pserve unix!/tmp/9p.sock''])"
  by (simp add: serve_eval)

subsection \<open>The settle delay\<close>

text \<open>
  C9. After the spawn of the pipeline by \<^verbatim>\<open>9p-run\<close> (the spawn having succeeded) and by
  \<^verbatim>\<open>9p-serve\<close> as a daemon, the very next call is \<^verbatim>\<open>time.sleep\<close> with 500 milliseconds
  and there is no other sleep afterwards: the wait is one fixed delay with no look at the
  file system inside it. Afterwards \<^verbatim>\<open>9p-run\<close> looks at the file system at most twice
  (the socket check and the kernel check), \<^verbatim>\<open>9p-serve\<close> not at all.
\<close>

theorem settle_delay_fixed_sleep:
  "(popen_pid w \<noteq> None \<and> after_spawn (snd (run_do_run a w)) = Some es \<longrightarrow>
      (\<exists>rest. es = Time_sleep 500 # rest \<and> filter sleep rest = [] \<and>
              length (filter probe rest) \<le> 2))
   \<and> (daemon b \<and> after_spawn (snd (serve_do_run b w)) = Some es' \<longrightarrow>
      (\<exists>rest. es' = Time_sleep 500 # rest \<and> filter sleep rest = [] \<and>
              filter probe rest = []))"
proof -
  obtain r t where at: "auto_start a w = (r, t)"
    by (cases "auto_start a w")
  have run: "\<exists>rest. es = Time_sleep 500 # rest \<and> filter sleep rest = [] \<and>
              length (filter probe rest) \<le> 2"
    if pid: "popen_pid w \<noteq> None" and es: "after_spawn (snd (run_do_run a w)) = Some es"
  proof (cases r)
    case (Inl e)
    then have "after_spawn t = Some es"
      using es at by (simp add: run_do_run_def)
    then have "es = [Time_sleep 500]"
      using auto_start_settle [OF pid, of a es] at by simp
    then show ?thesis
      by simp
  next
    case (Inr sp)
    have l: "after_spawn (snd (launch a w sp)) = None"
      using launch_no_spawn [of a w sp] by (simp add: after_spawn_none)
    obtain es0 where es0: "after_spawn t = Some es0" "es = es0 @ snd (launch a w sp)"
      using es at Inr l
      by (auto simp add: run_do_run_def split_beta after_spawn_append split: option.splits)
    have "es0 = [Time_sleep 500]"
      using auto_start_settle [OF pid, of a es0] at es0(1) by simp
    then show ?thesis
      using es0(2) launch_no_sleep [of a w sp] launch_probes [of a w sp] by simp
  qed
  show ?thesis
    using run serve_do_run_settle [of b w es'] by blast
qed

theorem settle_delay_fixed_sleep_witness:
  "popen_pid slow_world \<noteq> None
   \<and> after_spawn (snd (run_do_run (run_defaults\<lparr>serve_dir := Some ''/srv/export''\<rparr>) slow_world)) =
       Some [Time_sleep 500, Os_path_exists ''/tmp/9p.sock'', Popen_terminate 4242]
   \<and> daemon (serve_defaults\<lparr>daemon := True\<rparr>)
   \<and> after_spawn (snd (serve_do_run (serve_defaults\<lparr>daemon := True\<rparr>) slow_world)) =
       Some [Time_sleep 500, Print ''Server started in background'',
             Print ''Socket: /tmp/9p.sock'']
   \<and> (\<exists>rest. [Time_sleep 500, Os_path_exists ''/tmp/9p.sock'', Popen_terminate 4242] =
               Time_sleep 500 # rest \<and> filter sleep rest = [] \<and>
               length (filter probe rest) \<le> 2)
   \<and> (\<exists>rest. [Time_sleep 500, Print ''Server started in background'',
                Print ''Socket: /tmp/9p.sock''] =
               Time_sleep 500 # rest \<and> filter sleep rest = [] \<and> filter probe rest = [])"
proof -
  have p: "popen_pid slow_world \<noteq> None"
    by (simp add: slow_world_def ready_world_def)
  have r: "after_spawn (snd (run_do_run (run_defaults\<lparr>serve_dir := Some ''/srv/export''\<rparr>) slow_world)) =
       Some [Time_sleep 500, Os_path_exists ''/tmp/9p.sock'', Popen_terminate 4242]"
    by (simp add: run_eval)
  have d: "daemon (serve_defaults\<lparr>daemon := True\<rparr>)"
    by simp
  have s: "after_spawn (snd (serve_do_run (serve_defaults\<lparr>daemon := True\<rparr>) slow_world)) =
       Some [Time_sleep 500, Print ''Server started in background'',
             Print ''Socket: /tmp/9p.sock'']"
    by (simp add: serve_eval)
  note inst = settle_delay_fixed_sleep [where w = slow_world
      and a = "run_defaults\<lparr>serve_dir := Some ''/srv/export''\<rparr>"
      and b = "serve_defaults\<lparr>daemon := True\<rparr>"
      and es = "[Time_sleep 500, Os_path_exists ''/tmp/9p.sock'', Popen_terminate 4242]"
      and es' = "[Time_sleep 500, Print ''Server started in background'',
             Print ''Socket: /tmp/9p.sock'']"]
  show ?thesis
    using p r d s inst by blast
qed

subsection \<open>The board selector\<close>

text \<open>
  C10. Two calls of \<^verbatim>\<open>NinePRun.do_run\<close> that differ in the board alone make the same
  calls, the emulator's command line included; their results are equal unless the call
  dies for the missing kernel, where the board stands in the hint of the message. The
  emulator's command line does not change with the board, the build directory or the
  serve directory (it is made of the memory size, the socket path and the kernel path), it
  starts with \<^verbatim>\<open>qemu-system-i386\<close>, and it is the only command \<^verbatim>\<open>do_run\<close> gives to
  \<^verbatim>\<open>subprocess.run\<close>.
\<close>

theorem run_board_only_in_hint:
  "snd (run_do_run (a\<lparr>board := b\<rparr>) w) = snd (run_do_run a w)
   \<and> (fst (run_do_run (a\<lparr>board := b\<rparr>) w) = fst (run_do_run a w)
      \<or> (\<exists>k. fst (run_do_run (a\<lparr>board := b\<rparr>) w) =
               Died (''Kernel not found: '' @ k @ newline @
                     ''Build first with: west build -b '' @ b @ '' 9p4z/samples/9p_client'')))
   \<and> qemu_cmd (a\<lparr>board := b, build_dir := bd, serve_dir := sd\<rparr>) k = qemu_cmd a k
   \<and> hd (qemu_cmd a k) = ''qemu-system-i386''
   \<and> (subprocess_cmds (snd (run_do_run a w)) = []
      \<or> (\<exists>k. subprocess_cmds (snd (run_do_run a w)) = [qemu_cmd a k]))"
proof -
  obtain r t where at: "auto_start a w = (r, t)"
    by (cases "auto_start a w")
  have t: "subprocess_cmds t = []"
    using auto_start_no_subprocess [of a w] at by simp
  have trace: "snd (run_do_run (a\<lparr>board := b\<rparr>) w) = snd (run_do_run a w)"
    using at launch_board_trace [where a = a and b = b and w = w]
    by (cases r) (simp_all add: run_do_run_def auto_start_board split_beta)
  have res: "fst (run_do_run (a\<lparr>board := b\<rparr>) w) = fst (run_do_run a w)
      \<or> (\<exists>k. fst (run_do_run (a\<lparr>board := b\<rparr>) w) =
               Died (''Kernel not found: '' @ k @ newline @
                     ''Build first with: west build -b '' @ b @ '' 9p4z/samples/9p_client''))"
  proof (cases r)
    case (Inl e)
    then show ?thesis
      using at by (simp add: run_do_run_def auto_start_board)
  next
    case (Inr sp)
    then show ?thesis
      using at launch_board_result [where a = a and b = b and w = w and sp = sp]
      by (simp add: run_do_run_def auto_start_board split_beta)
  qed
  have cmd: "qemu_cmd (a\<lparr>board := b, build_dir := bd, serve_dir := sd\<rparr>) k = qemu_cmd a k"
    by (simp add: qemu_cmd_def)
  have bin: "hd (qemu_cmd a k) = ''qemu-system-i386''"
    by (simp add: qemu_cmd_def)
  have cmds: "subprocess_cmds (snd (run_do_run a w)) = []
      \<or> (\<exists>k. subprocess_cmds (snd (run_do_run a w)) = [qemu_cmd a k])"
  proof (cases r)
    case (Inl e)
    then show ?thesis
      using at t by (simp add: run_do_run_def)
  next
    case (Inr sp)
    then show ?thesis
      using at t launch_subprocess_cmds [where a = a and w = w and sp = sp]
      by (simp add: run_do_run_def split_beta subprocess_cmds_append)
  qed
  show ?thesis
    using trace res cmd bin cmds by blast
qed

end
